theory Spec2Isabelle
  imports Complex_Main
begin

section \<open>JavaScript values\<close>

text \<open>
  The values the client handles at run time: what \<open>response.json()\<close> decodes, what a
  rejection that is no \<open>Error\<close> carries, and what the endpoint methods return. An object is
  the list of its own enumerable properties in property order (the order of
  \<open>Object.entries\<close>); a decoded JSON object has distinct keys, and every property of an
  object here is a data property (no value is callable). Numbers are rationals.
\<close>

datatype jsval =
    JUndefined
  | JNull
  | JBool bool
  | JNum rat
  | JStr string
  | JArr "jsval list"
  | JObj "(string \<times> jsval) list"

text \<open>What can be thrown: an \<open>Error\<close> with its message, a \<open>TypeError\<close> of the
  runtime (its message is the engine's), or a value that is no \<open>Error\<close> instance.\<close>

datatype exn = Error string | TypeError | Thrown jsval

text \<open>ToBoolean.\<close>

fun truthy :: "jsval \<Rightarrow> bool" where
  "truthy JUndefined = False"
| "truthy JNull = False"
| "truthy (JBool b) = b"
| "truthy (JNum r) = (r \<noteq> 0)"
| "truthy (JStr s) = (s \<noteq> [])"
| "truthy (JArr xs) = True"
| "truthy (JObj kvs) = True"

text \<open>Sequencing of steps that may throw.\<close>

definition bind_exn :: "exn + 'a \<Rightarrow> ('a \<Rightarrow> exn + 'b) \<Rightarrow> exn + 'b" where
  "bind_exn r f = (case r of Inl e \<Rightarrow> Inl e | Inr v \<Rightarrow> f v)"

text \<open>The results of steps run left to right, up to the first that throws.\<close>

fun all_or_throw :: "(exn + 'a) list \<Rightarrow> exn + 'a list" where
  "all_or_throw [] = Inr []"
| "all_or_throw (Inl e # rs) = Inl e"
| "all_or_throw (Inr x # rs) = bind_exn (all_or_throw rs) (\<lambda>xs. Inr (x # xs))"

text \<open>\<open>a || b\<close>\<close>

definition or_else :: "jsval \<Rightarrow> jsval \<Rightarrow> jsval" where
  "or_else a b = (if truthy a then a else b)"

subsection \<open>String coercion\<close>

definition digit_char :: "nat \<Rightarrow> char" where
  "digit_char d = ''0123456789'' ! d"

fun show_nat :: "nat \<Rightarrow> string" where
  "show_nat n = (if n < 10 then [digit_char n] else show_nat (n div 10) @ [digit_char (n mod 10)])"

declare show_nat.simps [simp del]

definition show_int :: "int \<Rightarrow> string" where
  "show_int i = (if i < 0 then CHR ''-'' # show_nat (nat (- i)) else show_nat (nat i))"

text \<open>
  \<open>String(n)\<close> for a number. A safe integer (at most \<open>2^53\<close> in absolute value) prints
  as its decimal digits. The text of every other number (a non-integer; a larger number,
  which the runtime prints by its shortest round-trip digits and from \<open>10^21\<close> on in
  exponent form) is the runtime's \<open>Number.prototype.toString\<close>, the parameter \<open>N\<close>.
\<close>

definition Number_toString :: "(rat \<Rightarrow> string) \<Rightarrow> rat \<Rightarrow> string" where
  "Number_toString N r =
     (if of_int \<lfloor>r\<rfloor> = r \<and> \<bar>r\<bar> \<le> 2 ^ 53 then show_int \<lfloor>r\<rfloor> else N r)"

fun join_comma :: "string list \<Rightarrow> string" where
  "join_comma [] = []"
| "join_comma [s] = s"
| "join_comma (s # t # ss) = s @ '','' @ join_comma (t # ss)"

text \<open>
  \<open>String(v)\<close> and the coercion of \<open>${v}\<close> in a template literal. An array joins the
  texts of its elements. An object is coerced through its \<open>toString\<close>: the inherited one
  gives \<open>[object Object]\<close>; an own property of that name is not callable, and then the
  coercion throws a \<open>TypeError\<close> (whatever \<open>valueOf\<close> is, it yields no primitive).
\<close>

fun js_String :: "(rat \<Rightarrow> string) \<Rightarrow> jsval \<Rightarrow> exn + string" where
  "js_String N JUndefined = Inr ''undefined''"
| "js_String N JNull = Inr ''null''"
| "js_String N (JBool b) = Inr (if b then ''true'' else ''false'')"
| "js_String N (JNum r) = Inr (Number_toString N r)"
| "js_String N (JStr s) = Inr s"
| "js_String N (JArr xs) =
     bind_exn
       (all_or_throw (map (\<lambda>x. if x = JUndefined \<or> x = JNull then Inr [] else js_String N x) xs))
       (\<lambda>ss. Inr (join_comma ss))"
| "js_String N (JObj kvs) =
     (if map_of kvs ''toString'' \<noteq> None then Inl TypeError else Inr ''[object Object]'')"

subsection \<open>Property access\<close>

text \<open>
  \<open>v.k\<close> for the property names this program reads (\<open>error\<close>, \<open>products\<close>,
  \<open>sales\<close>, \<open>customers\<close>, \<open>discounts\<close>, \<open>download_logs\<close>, \<open>stats\<close>,
  \<open>earnings\<close>): none of them is inherited or built in, so only an object can have one.
  Reading a property of \<open>undefined\<close> or \<open>null\<close> throws.
\<close>

fun get_prop :: "jsval \<Rightarrow> string \<Rightarrow> exn + jsval" where
  "get_prop JUndefined k = Inl TypeError"
| "get_prop JNull k = Inl TypeError"
| "get_prop (JObj kvs) k = Inr (case map_of kvs k of Some v \<Rightarrow> v | None \<Rightarrow> JUndefined)"
| "get_prop v k = Inr JUndefined"

text \<open>\<open>v[0]\<close>\<close>

fun elem0 :: "jsval \<Rightarrow> exn + jsval" where
  "elem0 JUndefined = Inl TypeError"
| "elem0 JNull = Inl TypeError"
| "elem0 (JArr xs) = Inr (case xs of [] \<Rightarrow> JUndefined | x # _ \<Rightarrow> x)"
| "elem0 (JStr s) = Inr (case s of [] \<Rightarrow> JUndefined | c # _ \<Rightarrow> JStr [c])"
| "elem0 (JObj kvs) = Inr (case map_of kvs ''0'' of Some v \<Rightarrow> v | None \<Rightarrow> JUndefined)"
| "elem0 v = Inr JUndefined"

text \<open>\<open>v?.[0]\<close>\<close>

definition opt_elem0 :: "jsval \<Rightarrow> exn + jsval" where
  "opt_elem0 v = (if v = JUndefined \<or> v = JNull then Inr JUndefined else elem0 v)"

text \<open>\<open>k in v\<close>, for \<open>k = 'stats'\<close>: a primitive on the right throws.\<close>

fun in_op :: "string \<Rightarrow> jsval \<Rightarrow> exn + bool" where
  "in_op k (JObj kvs) = Inr (map_of kvs k \<noteq> None)"
| "in_op k (JArr xs) = Inr False"
| "in_op k v = Inl TypeError"

text \<open>The own enumerable properties of a value, as \<open>Object.entries\<close> and a rest pattern
  read them.\<close>

fun own_entries :: "jsval \<Rightarrow> exn + (string \<times> jsval) list" where
  "own_entries JUndefined = Inl TypeError"
| "own_entries JNull = Inl TypeError"
| "own_entries (JObj kvs) = Inr kvs"
| "own_entries (JArr xs) = Inr (zip (map show_nat [0..<length xs]) xs)"
| "own_entries (JStr s) = Inr (zip (map show_nat [0..<length s]) (map (\<lambda>c. JStr [c]) s))"
| "own_entries v = Inr []"

section \<open>Parameter values\<close>

text \<open>
  The values of type \<open>string | number | undefined\<close>: what the tool inputs are after
  validation, what the endpoint methods take, and what a parameter map
  (\<open>Record<string, string | number | undefined>\<close>) holds. A parameter map is the list of
  its entries in the order of \<open>Object.entries\<close>.
\<close>

datatype param = PUndefined | PNum rat | PStr string

text \<open>\<open>String(value)\<close>\<close>

fun param_String :: "(rat \<Rightarrow> string) \<Rightarrow> param \<Rightarrow> string" where
  "param_String N PUndefined = ''undefined''"
| "param_String N (PNum r) = Number_toString N r"
| "param_String N (PStr s) = s"

text \<open>ToBoolean.\<close>

fun param_truthy :: "param \<Rightarrow> bool" where
  "param_truthy PUndefined = False"
| "param_truthy (PNum r) = (r \<noteq> 0)"
| "param_truthy (PStr s) = (s \<noteq> [])"

section \<open>URLs\<close>

text \<open>
  A \<open>URL\<close> object: the base it was resolved against, the relative endpoint, and its
  \<open>searchParams\<close> as the ordered list of name/value pairs. \<open>url.toString()\<close> serialises
  exactly these pairs, so the structured value stands for the string the client passes
  to the transport. The configured base is taken to be an absolute URL.
\<close>

record url =
  base :: string
  endpoint :: string
  searchParams :: "(string \<times> string) list"

definition new_URL :: "string \<Rightarrow> string \<Rightarrow> url" where
  "new_URL ep b = \<lparr> base = b, endpoint = ep, searchParams = [] \<rparr>"

text \<open>\<open>URLSearchParams.set\<close>: the first pair of that name takes the value and the later
  ones go; with no such pair, the pair is appended.\<close>

fun searchParams_set :: "string \<Rightarrow> string \<Rightarrow> (string \<times> string) list \<Rightarrow> (string \<times> string) list" where
  "searchParams_set k v [] = [(k, v)]"
| "searchParams_set k v ((k', v') # ps) =
     (if k' = k then (k, v) # filter (\<lambda>p. fst p \<noteq> k) ps
      else (k', v') # searchParams_set k v ps)"

text \<open>\<open>URLSearchParams.get\<close>\<close>

definition searchParams_get :: "url \<Rightarrow> string \<Rightarrow> string option" where
  "searchParams_get u k = map_of (searchParams u) k"

section \<open>The client\<close>

record EDDClient =
  apiUrl :: string
  apiKey :: string
  apiToken :: string

text \<open>The loop over \<open>Object.entries(params)\<close> of \<open>buildUrl\<close> and \<open>buildPublicUrl\<close>.\<close>

fun add_params :: "(rat \<Rightarrow> string) \<Rightarrow> (string \<times> param) list \<Rightarrow> (string \<times> string) list \<Rightarrow> (string \<times> string) list" where
  "add_params N [] q = q"
| "add_params N ((k, v) # ps) q =
     add_params N ps (if v \<noteq> PUndefined then searchParams_set k (param_String N v) q else q)"

definition buildUrl :: "(rat \<Rightarrow> string) \<Rightarrow> EDDClient \<Rightarrow> string \<Rightarrow> (string \<times> param) list \<Rightarrow> url" where
  "buildUrl N c ep params =
     (let u = new_URL ep (apiUrl c);
          q1 = searchParams_set ''key'' (apiKey c) (searchParams u);
          q2 = searchParams_set ''token'' (apiToken c) q1
      in u \<lparr> searchParams := add_params N params q2 \<rparr>)"

definition buildPublicUrl :: "(rat \<Rightarrow> string) \<Rightarrow> EDDClient \<Rightarrow> string \<Rightarrow> (string \<times> param) list \<Rightarrow> url" where
  "buildPublicUrl N c ep params =
     (let u = new_URL ep (apiUrl c)
      in u \<lparr> searchParams := add_params N params (searchParams u) \<rparr>)"

section \<open>The transport and the retry loop\<close>

text \<open>What \<open>fetch\<close> resolves to: the fields of the \<open>Response\<close> that \<open>request\<close> reads.
  \<open>json\<close> is what \<open>response.json()\<close> settles to: the decoded body, or a rejection.\<close>

record response =
  ok :: bool
  status :: nat
  statusText :: string
  json :: "exn + jsval"

datatype fetch_outcome = Rejected exn | Resolved response

text \<open>
  The runtime the client runs on. \<open>fetch u n\<close> is the outcome of the call to the
  transport for the URL \<open>u\<close> when \<open>n\<close> calls were made before it (every call is a
  \<open>GET\<close> with \<open>Accept: application/json\<close>). \<open>NumberToString\<close> and \<open>JSON_stringify\<close>
  are the runtime's \<open>Number.prototype.toString\<close> and \<open>JSON.stringify(v, null, 2)\<close>.
\<close>

record platform =
  fetch :: "url \<Rightarrow> nat \<Rightarrow> fetch_outcome"
  NumberToString :: "rat \<Rightarrow> string"
  JSON_stringify :: "jsval \<Rightarrow> string"

text \<open>
  The observable effects, in the order they happen: \<open>Fetch u\<close> is a call to the transport
  for the URL \<open>u\<close>, \<open>Wait ms\<close> a delay (\<open>setTimeout\<close>) of \<open>ms\<close> milliseconds that was
  waited to its end. \<open>calls\<close> and \<open>sleeps\<close> read the URLs called and the delays waited
  off the trace.
\<close>

datatype event = Fetch url | Wait nat

type_synonym world = "event list"

fun calls :: "world \<Rightarrow> url list" where
  "calls [] = []"
| "calls (Fetch u # w) = u # calls w"
| "calls (Wait ms # w) = calls w"

fun sleeps :: "world \<Rightarrow> nat list" where
  "sleeps [] = []"
| "sleeps (Fetch u # w) = sleeps w"
| "sleeps (Wait ms # w) = ms # sleeps w"

text \<open>The body of the \<open>try\<close> block of \<open>request\<close>, given the outcome of \<open>fetch\<close>.\<close>

definition request_try :: "platform \<Rightarrow> fetch_outcome \<Rightarrow> exn + jsval" where
  "request_try P out =
     (case out of
        Rejected e \<Rightarrow> Inl e
      | Resolved r \<Rightarrow>
          if \<not> ok r then Inl (Error (''HTTP '' @ show_nat (status r) @ '': '' @ statusText r))
          else bind_exn (json r) (\<lambda>data.
                 bind_exn (get_prop data ''error'') (\<lambda>err.
                   if truthy err
                   then bind_exn (js_String (NumberToString P) err) (\<lambda>s.
                          Inl (Error (''EDD API Error: '' @ s)))
                   else Inr data)))"

text \<open>\<open>error instanceof Error ? error : new Error(String(error))\<close>, in the \<open>catch\<close>
  block: \<open>Inr\<close> the error it yields, \<open>Inl\<close> what the coercion throws.\<close>

fun as_Error :: "platform \<Rightarrow> exn \<Rightarrow> exn + exn" where
  "as_Error P (Thrown v) = bind_exn (js_String (NumberToString P) v) (\<lambda>s. Inr (Error s))"
| "as_Error P e = Inr e"

text \<open>\<open>Math.pow(2, attempt - 1) * 1000\<close>\<close>

definition backoff_ms :: "nat \<Rightarrow> nat" where
  "backoff_ms attempt = 2 ^ (attempt - 1) * 1000"

text \<open>The \<open>for\<close> loop of \<open>request\<close> from \<open>attempt\<close> on, and the \<open>throw\<close> after it.
  What the \<open>catch\<close> block itself throws leaves \<open>request\<close> at once.\<close>

function request_loop ::
  "platform \<Rightarrow> url \<Rightarrow> nat \<Rightarrow> nat \<Rightarrow> exn option \<Rightarrow> world \<Rightarrow> (exn + jsval) \<times> world" where
  "request_loop P u retries attempt lastError w =
     (if attempt \<le> retries then
        (let out = fetch P u (length (calls w));
             w1 = w @ [Fetch u]
         in case request_try P out of
              Inr data \<Rightarrow> (Inr data, w1)
            | Inl error \<Rightarrow>
                (case as_Error P error of
                   Inl thrown \<Rightarrow> (Inl thrown, w1)
                 | Inr e \<Rightarrow>
                     request_loop P u retries (attempt + 1) (Some e)
                       (if attempt < retries then w1 @ [Wait (backoff_ms attempt)] else w1)))
      else (Inl (case lastError of Some e \<Rightarrow> e | None \<Rightarrow> Error ''Request failed after retries''), w))"
  by pat_completeness auto
termination
  by (relation "measure (\<lambda>(P, u, retries, attempt, lastError, w). Suc retries - attempt)") auto

declare request_loop.simps [simp del]

definition request :: "platform \<Rightarrow> url \<Rightarrow> nat \<Rightarrow> world \<Rightarrow> (exn + jsval) \<times> world" where
  "request P u retries w = request_loop P u retries 1 None w"

text \<open>\<open>await\<close>: a rejection propagates; otherwise the rest runs on the value.\<close>

definition await :: "(exn + 'a) \<times> world \<Rightarrow> ('a \<Rightarrow> exn + 'b) \<Rightarrow> (exn + 'b) \<times> world" where
  "await r f = (case r of (Inl e, w) \<Rightarrow> (Inl e, w) | (Inr v, w) \<Rightarrow> (f v, w))"

section \<open>Endpoint methods\<close>

text \<open>Every method calls \<open>request\<close> with its default retry budget of 3.\<close>

subsection \<open>Products (public)\<close>

definition listProducts :: "platform \<Rightarrow> EDDClient \<Rightarrow> (string \<times> param) list \<Rightarrow> world \<Rightarrow> (exn + jsval) \<times> world" where
  "listProducts P c options w =
     await (request P (buildPublicUrl (NumberToString P) c ''products/'' options) 3 w)
       (\<lambda>response. get_prop response ''products'')"

definition getProduct :: "platform \<Rightarrow> EDDClient \<Rightarrow> param \<Rightarrow> world \<Rightarrow> (exn + jsval) \<times> world" where
  "getProduct P c productId w =
     await (listProducts P c [(''product'', productId)] w)
       (\<lambda>products. bind_exn (elem0 products) (\<lambda>x. Inr (or_else x JNull)))"

subsection \<open>Sales (authenticated)\<close>

definition listSales :: "platform \<Rightarrow> EDDClient \<Rightarrow> (string \<times> param) list \<Rightarrow> world \<Rightarrow> (exn + jsval) \<times> world" where
  "listSales P c options w =
     await (request P (buildUrl (NumberToString P) c ''sales/'' options) 3 w)
       (\<lambda>response. bind_exn (get_prop response ''sales'') (\<lambda>x. Inr (or_else x (JArr []))))"

definition getSaleById :: "platform \<Rightarrow> EDDClient \<Rightarrow> param \<Rightarrow> world \<Rightarrow> (exn + jsval) \<times> world" where
  "getSaleById P c saleId w =
     await (request P (buildUrl (NumberToString P) c ''sales/'' [(''id'', saleId)]) 3 w)
       (\<lambda>response. bind_exn (get_prop response ''sales'') (\<lambda>s.
          bind_exn (opt_elem0 s) (\<lambda>x. Inr (or_else x JNull))))"

definition getSaleByKey :: "platform \<Rightarrow> EDDClient \<Rightarrow> param \<Rightarrow> world \<Rightarrow> (exn + jsval) \<times> world" where
  "getSaleByKey P c purchaseKey w =
     await (request P (buildUrl (NumberToString P) c ''sales/'' [(''key'', purchaseKey)]) 3 w)
       (\<lambda>response. bind_exn (get_prop response ''sales'') (\<lambda>s.
          bind_exn (opt_elem0 s) (\<lambda>x. Inr (or_else x JNull))))"

text \<open>\<open>{ ...options, email }\<close>: the properties of \<open>options\<close>, then \<open>email\<close> set.\<close>

fun obj_put :: "string \<Rightarrow> param \<Rightarrow> (string \<times> param) list \<Rightarrow> (string \<times> param) list" where
  "obj_put k v [] = [(k, v)]"
| "obj_put k v ((k', v') # kvs) = (if k' = k then (k, v) # kvs else (k', v') # obj_put k v kvs)"

definition searchSalesByEmail :: "platform \<Rightarrow> EDDClient \<Rightarrow> param \<Rightarrow> (string \<times> param) list \<Rightarrow> world \<Rightarrow> (exn + jsval) \<times> world" where
  "searchSalesByEmail P c email options w = listSales P c (obj_put ''email'' email options) w"

subsection \<open>Customers (authenticated)\<close>

definition listCustomers :: "platform \<Rightarrow> EDDClient \<Rightarrow> (string \<times> param) list \<Rightarrow> world \<Rightarrow> (exn + jsval) \<times> world" where
  "listCustomers P c options w =
     await (request P (buildUrl (NumberToString P) c ''customers/'' options) 3 w)
       (\<lambda>response. bind_exn (get_prop response ''customers'') (\<lambda>x. Inr (or_else x (JArr []))))"

definition getCustomerById :: "platform \<Rightarrow> EDDClient \<Rightarrow> param \<Rightarrow> world \<Rightarrow> (exn + jsval) \<times> world" where
  "getCustomerById P c customerId w =
     await (request P (buildUrl (NumberToString P) c ''customers/'' [(''customer'', customerId)]) 3 w)
       (\<lambda>response. bind_exn (get_prop response ''customers'') (\<lambda>s.
          bind_exn (opt_elem0 s) (\<lambda>x. Inr (or_else x JNull))))"

definition getCustomerByEmail :: "platform \<Rightarrow> EDDClient \<Rightarrow> param \<Rightarrow> world \<Rightarrow> (exn + jsval) \<times> world" where
  "getCustomerByEmail P c email w =
     await (request P (buildUrl (NumberToString P) c ''customers/'' [(''email'', email)]) 3 w)
       (\<lambda>response. bind_exn (get_prop response ''customers'') (\<lambda>s.
          bind_exn (opt_elem0 s) (\<lambda>x. Inr (or_else x JNull))))"

subsection \<open>Stats (authenticated)\<close>

datatype stats_type = Sales | Earnings

fun type_name :: "stats_type \<Rightarrow> string" where
  "type_name Sales = ''sales''"
| "type_name Earnings = ''earnings''"

definition getStats :: "platform \<Rightarrow> EDDClient \<Rightarrow> stats_type \<Rightarrow> world \<Rightarrow> (exn + jsval) \<times> world" where
  "getStats P c t w =
     await (request P (buildUrl (NumberToString P) c ''stats/'' [(''type'', PStr (type_name t))]) 3 w)
       (\<lambda>response. bind_exn (in_op ''stats'' response) (\<lambda>has.
          bind_exn (get_prop response ''stats'') (\<lambda>stats.
            if has \<and> truthy stats then Inr stats
            else bind_exn (get_prop response (type_name t)) (\<lambda>v.
                   Inr (JObj [(type_name t, v)])))))"

definition getStatsByDateRange :: "platform \<Rightarrow> EDDClient \<Rightarrow> stats_type \<Rightarrow> param \<Rightarrow> param \<Rightarrow> world \<Rightarrow> (exn + jsval) \<times> world" where
  "getStatsByDateRange P c t startDate endDate w =
     await (request P (buildUrl (NumberToString P) c ''stats/''
              [(''type'', PStr (type_name t)), (''date'', PStr ''range''),
               (''startdate'', startDate), (''enddate'', endDate)]) 3 w)
       (\<lambda>response. bind_exn (own_entries response) (\<lambda>kvs.
          Inr (JObj (filter (\<lambda>(k, v). k \<noteq> ''request_speed'' \<and> k \<noteq> ''totals'') kvs))))"

text \<open>\<open>typeof v === 'number'\<close>\<close>

fun is_number :: "jsval \<Rightarrow> bool" where
  "is_number (JNum r) = True"
| "is_number v = False"

definition getStatsByProduct :: "platform \<Rightarrow> EDDClient \<Rightarrow> stats_type \<Rightarrow> param \<Rightarrow> world \<Rightarrow> (exn + jsval) \<times> world" where
  "getStatsByProduct P c t productId w =
     await (request P (buildUrl (NumberToString P) c ''stats/''
              [(''type'', PStr (type_name t)),
               (''product'', if productId = PUndefined then PStr ''all'' else productId)]) 3 w)
       (\<lambda>response. bind_exn (own_entries response) (\<lambda>kvs.
          Inr (JArr (map (\<lambda>(k, v). JObj [(''name'', JStr k), (''value'', v)])
                 (filter (\<lambda>(k, v). k \<noteq> ''request_speed'' \<and> is_number v) kvs)))))"

subsection \<open>Discounts and download logs (authenticated)\<close>

definition listDiscounts :: "platform \<Rightarrow> EDDClient \<Rightarrow> (string \<times> param) list \<Rightarrow> world \<Rightarrow> (exn + jsval) \<times> world" where
  "listDiscounts P c options w =
     await (request P (buildUrl (NumberToString P) c ''discounts/'' options) 3 w)
       (\<lambda>response. bind_exn (get_prop response ''discounts'') (\<lambda>x. Inr (or_else x (JArr []))))"

definition getDiscount :: "platform \<Rightarrow> EDDClient \<Rightarrow> param \<Rightarrow> world \<Rightarrow> (exn + jsval) \<times> world" where
  "getDiscount P c discountId w =
     await (request P (buildUrl (NumberToString P) c ''discounts/'' [(''discount'', discountId)]) 3 w)
       (\<lambda>response. bind_exn (get_prop response ''discounts'') (\<lambda>s.
          bind_exn (opt_elem0 s) (\<lambda>x. Inr (or_else x JNull))))"

definition getDownloadLogs :: "platform \<Rightarrow> EDDClient \<Rightarrow> (string \<times> param) list \<Rightarrow> world \<Rightarrow> (exn + jsval) \<times> world" where
  "getDownloadLogs P c options w =
     await (request P (buildUrl (NumberToString P) c ''file-download-logs/'' options) 3 w)
       (\<lambda>response. bind_exn (get_prop response ''download_logs'') (\<lambda>x. Inr (or_else x (JArr []))))"

section \<open>Tool handlers\<close>

text \<open>
  A handler's result is the content list of its reply; an item \<open>{type: 'text', text}\<close> is
  \<open>Text text\<close>. An optional input that was not supplied is \<open>PUndefined\<close>.
\<close>

datatype content = Text string

definition edd_get_sale :: "platform \<Rightarrow> EDDClient \<Rightarrow> param \<Rightarrow> param \<Rightarrow> world \<Rightarrow> (exn + content list) \<times> world" where
  "edd_get_sale P edd saleId purchaseKey w =
     (if \<not> param_truthy saleId \<and> \<not> param_truthy purchaseKey
      then (Inr [Text ''Error: Either saleId or purchaseKey is required''], w)
      else await (if param_truthy saleId then getSaleById P edd saleId w
                  else getSaleByKey P edd purchaseKey w)
             (\<lambda>sale. if \<not> truthy sale then Inr [Text ''Sale not found'']
                     else Inr [Text (JSON_stringify P sale)]))"

definition edd_get_customer :: "platform \<Rightarrow> EDDClient \<Rightarrow> param \<Rightarrow> param \<Rightarrow> world \<Rightarrow> (exn + content list) \<times> world" where
  "edd_get_customer P edd customerId email w =
     (if \<not> param_truthy customerId \<and> \<not> param_truthy email
      then (Inr [Text ''Error: Either customerId or email is required''], w)
      else await (if param_truthy customerId then getCustomerById P edd customerId w
                  else getCustomerByEmail P edd email w)
             (\<lambda>customer. if \<not> truthy customer then Inr [Text ''Customer not found'']
                         else Inr [Text (JSON_stringify P customer)]))"

section \<open>Fixtures\<close>

text \<open>
  The configuration of the unit tests, a world with no effects yet, and mocked transports
  that answer the \<open>n\<close>-th call by a scripted outcome. The fixtures hold integers only
  and serialise nothing, so their text for a non-integer and their \<open>JSON.stringify\<close> are
  empty placeholders.
\<close>

definition test_client :: EDDClient where
  "test_client = \<lparr> apiUrl = ''https://example.com/edd-api/'', apiKey = ''test-key'', apiToken = ''test-token'' \<rparr>"

definition no_effects :: world where
  "no_effects = []"

definition ok_response :: "jsval \<Rightarrow> response" where
  "ok_response body = \<lparr> ok = True, status = 200, statusText = ''OK'', json = Inr body \<rparr>"

definition no_fractions :: "rat \<Rightarrow> string" where
  "no_fractions r = []"

definition mock_platform :: "(nat \<Rightarrow> fetch_outcome) \<Rightarrow> platform" where
  "mock_platform outcomes =
     \<lparr> fetch = (\<lambda>u n. outcomes n), NumberToString = no_fractions, JSON_stringify = (\<lambda>v. []) \<rparr>"

definition fails_twice :: platform where
  "fails_twice = mock_platform (\<lambda>n. if n < 2 then Rejected (Error ''Network error'')
                                  else Resolved (ok_response (JObj [(''products'', JArr [])])))"

definition always_401 :: platform where
  "always_401 = mock_platform (\<lambda>n. Resolved \<lparr> ok = False, status = 401, statusText = ''Unauthorized'', json = Inr (JObj []) \<rparr>)"

definition invalid_api_key :: platform where
  "invalid_api_key = mock_platform (\<lambda>n. Resolved (ok_response (JObj [(''error'', JStr ''Invalid API key'')])))"

definition empty_lists :: platform where
  "empty_lists = mock_platform (\<lambda>n. Resolved (ok_response
     (JObj [(''products'', JArr []), (''customers'', JArr []), (''sales'', JArr []),
            (''discounts'', JArr [])])))"

definition empty_object :: platform where
  "empty_object = mock_platform (\<lambda>n. Resolved (ok_response (JObj [])))"

definition date_range_body :: jsval where
  "date_range_body = JObj [(''2025-01-01'', JNum 100), (''2025-01-02'', JNum 150),
     (''2025-01-03'', JNum 200), (''request_speed'', JNum (1 / 100)), (''totals'', JNum 450)]"

definition date_range_stats :: platform where
  "date_range_stats = mock_platform (\<lambda>n. Resolved (ok_response date_range_body))"

definition earnings_data :: jsval where
  "earnings_data = JObj [(''current_month'', JNum 5000), (''last_month'', JNum 4500), (''totals'', JNum 100000)]"

definition wrapped_stats :: platform where
  "wrapped_stats = mock_platform (\<lambda>n. Resolved (ok_response
     (JObj [(''stats'', JObj [(''earnings'', earnings_data)])])))"

definition flat_stats :: platform where
  "flat_stats = mock_platform (\<lambda>n. Resolved (ok_response
     (JObj [(''earnings'', earnings_data), (''request_speed'', JNum (1 / 100))])))"

definition sale_lookup :: platform where
  "sale_lookup = mock_platform (\<lambda>n. Resolved (ok_response (JObj [(''sales'', JArr [])])))"

section \<open>URL construction\<close>

lemma map_of_filter_other:
  "map_of (filter (\<lambda>p. fst p \<noteq> k) q) x = (if x = k then None else map_of q x)"
  by (induction q) auto

lemma map_of_searchParams_set: "map_of (searchParams_set k v q) = (map_of q)(k \<mapsto> v)"
  by (induction q) (auto simp: fun_eq_iff map_of_filter_other)

lemma map_of_add_params:
  "distinct (map fst ps) \<Longrightarrow>
   map_of (add_params N ps q) k =
     (case map_of ps k of
        Some v \<Rightarrow> if v \<noteq> PUndefined then Some (param_String N v) else map_of q k
      | None \<Rightarrow> map_of q k)"
proof (induction ps arbitrary: q)
  case Nil
  then show ?case by simp
next
  case (Cons p ps)
  obtain k' v' where p: "p = (k', v')" by (cases p)
  from Cons.prems have d: "distinct (map fst ps)" and nk: "k' \<notin> fst ` set ps" by (auto simp: p)
  have "map_of ps k' = None" using nk by (simp add: map_of_eq_None_iff)
  then show ?case using Cons.IH[OF d] by (auto simp: p map_of_searchParams_set split: option.splits)
qed

lemma add_params_filter:
  "add_params N (filter (\<lambda>(k, v). v \<noteq> PUndefined) ps) q = add_params N ps q"
  by (induction ps arbitrary: q) auto

lemma show_nat_digit: "n < 10 \<Longrightarrow> show_nat n = [digit_char n]"
  by (subst show_nat.simps) simp

lemma show_nat_step: "10 \<le> n \<Longrightarrow> show_nat n = show_nat (n div 10) @ [digit_char (n mod 10)]"
  by (subst show_nat.simps) simp

lemma buildPublicUrl_get:
  assumes "distinct (map fst params)"
  shows "searchParams_get (buildPublicUrl N c ep params) k =
           (case map_of params k of
              Some v \<Rightarrow> if v \<noteq> PUndefined then Some (param_String N v) else None
            | None \<Rightarrow> None)"
  using map_of_add_params[OF assms, of N "[]" k]
  by (simp add: buildPublicUrl_def searchParams_get_def new_URL_def split: option.splits)

lemma buildUrl_get:
  assumes "distinct (map fst params)"
  shows "searchParams_get (buildUrl N c ep params) k =
           (case map_of params k of
              Some v \<Rightarrow> if v \<noteq> PUndefined then Some (param_String N v)
                        else map_of [(''key'', apiKey c), (''token'', apiToken c)] k
            | None \<Rightarrow> map_of [(''key'', apiKey c), (''token'', apiToken c)] k)"
  using map_of_add_params[OF assms, of N "[(''key'', apiKey c), (''token'', apiToken c)]" k]
  by (simp add: buildUrl_def searchParams_get_def new_URL_def)

text \<open>Parameter maps that use neither authentication name leave both in place.\<close>

lemma buildUrl_keeps_auth:
  assumes "distinct (map fst params)" and "''key'' \<notin> fst ` set params" and "''token'' \<notin> fst ` set params"
  shows "searchParams_get (buildUrl N c ep params) ''key'' = Some (apiKey c)"
    and "searchParams_get (buildUrl N c ep params) ''token'' = Some (apiToken c)"
proof -
  have "map_of params ''key'' = None" "map_of params ''token'' = None"
    using assms(2,3) by (simp_all add: map_of_eq_None_iff)
  then show "searchParams_get (buildUrl N c ep params) ''key'' = Some (apiKey c)"
    and "searchParams_get (buildUrl N c ep params) ''token'' = Some (apiToken c)"
    by (simp_all add: buildUrl_get[OF assms(1)])
qed

text \<open>
  Claim C8. For every parameter map, \<open>buildUrl\<close> and \<open>buildPublicUrl\<close> omit every entry
  whose value is \<open>undefined\<close>: the URL is the one built from the map without these
  entries. For a map with distinct keys (an object) and an entry \<open>k\<close> whose value is
  \<open>undefined\<close>, the URL of \<open>buildPublicUrl\<close> has no query parameter \<open>k\<close>, and the URL of
  \<open>buildUrl\<close> has under \<open>k\<close> what it has for the empty map: nothing, unless \<open>k\<close> is one of
  the names \<open>key\<close> and \<open>token\<close> that \<open>buildUrl\<close> sets itself before it reads the map. So
  the entry is never serialised, as the text \<open>undefined\<close> or otherwise. Every entry with a
  defined value appears under its key, string-coerced.
\<close>

theorem build_urls_omit_undefined:
  "buildUrl N c ep params = buildUrl N c ep (filter (\<lambda>(k, v). v \<noteq> PUndefined) params)
   \<and> buildPublicUrl N c ep params
       = buildPublicUrl N c ep (filter (\<lambda>(k, v). v \<noteq> PUndefined) params)
   \<and> (distinct (map fst params) \<and> (k, PUndefined) \<in> set params \<longrightarrow>
        searchParams_get (buildPublicUrl N c ep params) k = None
        \<and> searchParams_get (buildUrl N c ep params) k = searchParams_get (buildUrl N c ep []) k
        \<and> (k \<noteq> ''key'' \<and> k \<noteq> ''token'' \<longrightarrow> searchParams_get (buildUrl N c ep params) k = None))
   \<and> (distinct (map fst params) \<and> (k, v) \<in> set params \<and> v \<noteq> PUndefined \<longrightarrow>
        searchParams_get (buildPublicUrl N c ep params) k = Some (param_String N v)
        \<and> searchParams_get (buildUrl N c ep params) k = Some (param_String N v))"
proof (intro conjI impI)
  show "buildUrl N c ep params = buildUrl N c ep (filter (\<lambda>(k, v). v \<noteq> PUndefined) params)"
    by (simp add: buildUrl_def add_params_filter)
  show "buildPublicUrl N c ep params
          = buildPublicUrl N c ep (filter (\<lambda>(k, v). v \<noteq> PUndefined) params)"
    by (simp add: buildPublicUrl_def add_params_filter)
next
  assume a: "distinct (map fst params) \<and> (k, PUndefined) \<in> set params"
  then have d: "distinct (map fst params)" and m: "map_of params k = Some PUndefined" by simp_all
  show "searchParams_get (buildPublicUrl N c ep params) k = None"
    unfolding buildPublicUrl_get[OF d] m by simp
  show "searchParams_get (buildUrl N c ep params) k = searchParams_get (buildUrl N c ep []) k"
    unfolding buildUrl_get[OF d] m by (simp add: buildUrl_get)
  assume "k \<noteq> ''key'' \<and> k \<noteq> ''token''"
  then show "searchParams_get (buildUrl N c ep params) k = None"
    unfolding buildUrl_get[OF d] m by simp
next
  assume a: "distinct (map fst params) \<and> (k, v) \<in> set params \<and> v \<noteq> PUndefined"
  then have d: "distinct (map fst params)" and m: "map_of params k = Some v"
    and v: "v \<noteq> PUndefined" by simp_all
  show "searchParams_get (buildPublicUrl N c ep params) k = Some (param_String N v)"
    unfolding buildPublicUrl_get[OF d] m using v by simp
  show "searchParams_get (buildUrl N c ep params) k = Some (param_String N v)"
    unfolding buildUrl_get[OF d] m using v by simp
qed

theorem build_urls_omit_undefined_witness:
  "buildUrl no_fractions test_client ''sales/''
       [(''number'', PNum 10), (''page'', PUndefined), (''email'', PStr ''test@example.com'')]
     = buildUrl no_fractions test_client ''sales/''
       [(''number'', PNum 10), (''email'', PStr ''test@example.com'')]
   \<and> searchParams_get (buildUrl no_fractions test_client ''sales/''
       [(''number'', PNum 10), (''page'', PUndefined), (''email'', PStr ''test@example.com'')]) ''page'' = None
   \<and> searchParams_get (buildUrl no_fractions test_client ''sales/''
       [(''number'', PNum 10), (''page'', PUndefined), (''email'', PStr ''test@example.com'')]) ''number''
       = Some ''10''
   \<and> searchParams_get (buildPublicUrl no_fractions test_client ''products/''
       [(''number'', PUndefined), (''product'', PNum 42)]) ''number'' = None
   \<and> searchParams_get (buildPublicUrl no_fractions test_client ''products/''
       [(''number'', PUndefined), (''product'', PNum 42)]) ''product'' = Some ''42''"
proof -
  let ?sales = "[(''number'', PNum 10), (''page'', PUndefined), (''email'', PStr ''test@example.com'')]"
  let ?products = "[(''number'', PUndefined), (''product'', PNum 42)]"
  note omitted = build_urls_omit_undefined[THEN conjunct1]
  note undefined_entry = build_urls_omit_undefined[THEN conjunct2, THEN conjunct2, THEN conjunct1, rule_format]
  note defined_entry = build_urls_omit_undefined[THEN conjunct2, THEN conjunct2, THEN conjunct2, rule_format]
  have n10: "param_String no_fractions (PNum 10) = ''10''"
    by (simp add: Number_toString_def show_int_def show_nat_digit show_nat_step digit_char_def)
  have n42: "param_String no_fractions (PNum 42) = ''42''"
    by (simp add: Number_toString_def show_int_def show_nat_digit show_nat_step digit_char_def)
  have "buildUrl no_fractions test_client ''sales/'' ?sales
          = buildUrl no_fractions test_client ''sales/''
              [(''number'', PNum 10), (''email'', PStr ''test@example.com'')]"
    using omitted[of no_fractions test_client "''sales/''" ?sales] by simp
  moreover have "searchParams_get (buildUrl no_fractions test_client ''sales/'' ?sales) ''page'' = None"
  proof -
    have "distinct (map fst ?sales) \<and> (''page'', PUndefined) \<in> set ?sales" by simp
    moreover have "''page'' \<noteq> ''key'' \<and> ''page'' \<noteq> ''token''" by simp
    ultimately show ?thesis
      using undefined_entry[of ?sales "''page''" no_fractions test_client "''sales/''"] by blast
  qed
  moreover have "searchParams_get (buildUrl no_fractions test_client ''sales/'' ?sales) ''number''
                   = Some ''10''"
    using defined_entry[of ?sales "''number''" "PNum 10" no_fractions test_client "''sales/''"]
    by (simp add: n10 del: param_String.simps)
  moreover have "searchParams_get (buildPublicUrl no_fractions test_client ''products/'' ?products)
                   ''number'' = None"
  proof -
    have "distinct (map fst ?products) \<and> (''number'', PUndefined) \<in> set ?products" by simp
    then show ?thesis
      using undefined_entry[of ?products "''number''" no_fractions test_client "''products/''"] by blast
  qed
  moreover have "searchParams_get (buildPublicUrl no_fractions test_client ''products/'' ?products)
                   ''product'' = Some ''42''"
    using defined_entry[of ?products "''product''" "PNum 42" no_fractions test_client "''products/''"]
    by (simp add: n42 del: param_String.simps)
  ultimately show ?thesis by blast
qed

section \<open>The retry loop\<close>

lemma calls_append: "calls (w @ v) = calls w @ calls v"
  by (induction w rule: calls.induct) simp_all

lemma sleeps_append: "sleeps (w @ v) = sleeps w @ sleeps v"
  by (induction w rule: sleeps.induct) simp_all

lemma calls_attempts:
  "calls (concat (map (\<lambda>a. [Fetch u, Wait (f a)]) as)) = replicate (length as) u"
  by (induction as) simp_all

lemma sleeps_attempts:
  "sleeps (concat (map (\<lambda>a. [Fetch u, Wait (f a)]) as)) = map f as"
  by (induction as) simp_all

lemma request_loop_ok_step:
  "attempt \<le> retries \<Longrightarrow> request_try P (fetch P u (length (calls w))) = Inr data \<Longrightarrow>
   request_loop P u retries attempt le w = (Inr data, w @ [Fetch u])"
  by (subst request_loop.simps) simp

lemma request_loop_fail_step:
  "attempt \<le> retries \<Longrightarrow> request_try P (fetch P u (length (calls w))) = Inl e \<Longrightarrow>
   as_Error P e = Inr x \<Longrightarrow>
   request_loop P u retries attempt le w =
     request_loop P u retries (Suc attempt) (Some x)
       (if attempt < retries then w @ [Fetch u, Wait (backoff_ms attempt)] else w @ [Fetch u])"
  by (subst request_loop.simps) simp

text \<open>When the \<open>catch\<close> block cannot make an \<open>Error\<close> of what was thrown, \<open>request\<close> ends
  with that attempt.\<close>

lemma request_loop_catch_throws:
  "attempt \<le> retries \<Longrightarrow> request_try P (fetch P u (length (calls w))) = Inl e \<Longrightarrow>
   as_Error P e = Inl t \<Longrightarrow>
   request_loop P u retries attempt le w = (Inl t, w @ [Fetch u])"
  by (subst request_loop.simps) simp

lemma request_loop_done:
  "retries < attempt \<Longrightarrow>
   request_loop P u retries attempt le w =
     (Inl (case le of Some e \<Rightarrow> e | None \<Rightarrow> Error ''Request failed after retries''), w)"
  by (subst request_loop.simps) simp

lemma request_loop_success_after:
  assumes "\<forall>i<j. \<exists>e x. request_try P (fetch P u (length (calls w) + i)) = Inl e \<and> as_Error P e = Inr x"
      and "request_try P (fetch P u (length (calls w) + j)) = Inr data"
      and "attempt + j \<le> retries"
  shows "request_loop P u retries attempt le w =
           (Inr data,
            w @ concat (map (\<lambda>a. [Fetch u, Wait (backoff_ms a)]) [attempt..<attempt + j]) @ [Fetch u])"
  using assms
proof (induction j arbitrary: attempt le w)
  case 0
  then show ?case by (simp add: request_loop_ok_step)
next
  case (Suc j)
  from Suc.prems(1) obtain e x where e: "request_try P (fetch P u (length (calls w))) = Inl e"
    and x: "as_Error P e = Inr x"
    by force
  let ?w = "w @ [Fetch u, Wait (backoff_ms attempt)]"
  have a: "\<forall>i<j. \<exists>e x. request_try P (fetch P u (length (calls ?w) + i)) = Inl e \<and> as_Error P e = Inr x"
    using Suc.prems(1) by (auto simp: calls_append dest: spec[where x="Suc i" for i])
  have b: "request_try P (fetch P u (length (calls ?w) + j)) = Inr data"
    using Suc.prems(2) by (simp add: calls_append)
  have c: "Suc attempt + j \<le> retries" using Suc.prems(3) by simp
  have "request_loop P u retries attempt le w = request_loop P u retries (Suc attempt) (Some x) ?w"
    using Suc.prems(3) e x by (simp add: request_loop_fail_step)
  also have "\<dots> = (Inr data,
      ?w @ concat (map (\<lambda>a. [Fetch u, Wait (backoff_ms a)]) [Suc attempt..<Suc attempt + j]) @ [Fetch u])"
    by (rule Suc.IH[OF a b c])
  also have "\<dots> = (Inr data,
      w @ concat (map (\<lambda>a. [Fetch u, Wait (backoff_ms a)]) [attempt..<attempt + Suc j]) @ [Fetch u])"
  proof -
    have "[attempt..<attempt + Suc j] = attempt # [Suc attempt..<Suc attempt + j]"
      by (simp add: upt_conv_Cons)
    then show ?thesis by simp
  qed
  finally show ?case .
qed

lemma request_loop_all_fail:
  assumes "\<forall>i\<le>k. request_try P (fetch P u (length (calls w) + i)) = Inl (es i)
                  \<and> as_Error P (es i) = Inr (xs i)"
      and "retries = attempt + k"
  shows "request_loop P u retries attempt le w =
           (Inl (xs k),
            w @ concat (map (\<lambda>a. [Fetch u, Wait (backoff_ms a)]) [attempt..<retries]) @ [Fetch u])"
  using assms
proof (induction k arbitrary: attempt le w es xs)
  case 0
  then have "request_try P (fetch P u (length (calls w))) = Inl (es 0)"
    and "as_Error P (es 0) = Inr (xs 0)" by simp_all
  then show ?case using "0.prems"(2)
    by (simp add: request_loop_fail_step request_loop_done)
next
  case (Suc k)
  have e: "request_try P (fetch P u (length (calls w))) = Inl (es 0)"
    and x: "as_Error P (es 0) = Inr (xs 0)"
    using Suc.prems(1) by force+
  let ?w = "w @ [Fetch u, Wait (backoff_ms attempt)]"
  have a: "\<forall>i\<le>k. request_try P (fetch P u (length (calls ?w) + i)) = Inl (es (Suc i))
                  \<and> as_Error P (es (Suc i)) = Inr (xs (Suc i))"
    using Suc.prems(1) by (auto simp: calls_append dest: spec[where x="Suc i" for i])
  have c: "retries = Suc attempt + k" using Suc.prems(2) by simp
  have "request_loop P u retries attempt le w =
          request_loop P u retries (Suc attempt) (Some (xs 0)) ?w"
    using Suc.prems(2) e x by (simp add: request_loop_fail_step)
  also have "\<dots> = (Inl (xs (Suc k)),
      ?w @ concat (map (\<lambda>a. [Fetch u, Wait (backoff_ms a)]) [Suc attempt..<retries]) @ [Fetch u])"
    by (rule Suc.IH[OF a c])
  also have "\<dots> = (Inl (xs (Suc k)),
      w @ concat (map (\<lambda>a. [Fetch u, Wait (backoff_ms a)]) [attempt..<retries]) @ [Fetch u])"
  proof -
    have "[attempt..<retries] = attempt # [Suc attempt..<retries]"
      using Suc.prems(2) by (simp add: upt_conv_Cons)
    then show ?thesis by simp
  qed
  finally show ?case .
qed

lemma request_zero: "request P u 0 w = (Inl (Error ''Request failed after retries''), w)"
  by (simp add: request_def request_loop_done)

text \<open>An \<open>Error\<close> instance passes through the \<open>catch\<close> block as it is.\<close>

lemma as_Error_instance:
  "as_Error P (Error m) = Inr (Error m)" "as_Error P TypeError = Inr TypeError"
  by simp_all

lemma request_try_Rejected: "request_try P (Rejected e) = Inl e"
  by (simp add: request_try_def)

lemma request_try_not_ok:
  "\<not> ok r \<Longrightarrow> request_try P (Resolved r) = Inl (Error (''HTTP '' @ show_nat (status r) @ '': '' @ statusText r))"
  by (simp add: request_try_def)

lemma request_try_ok:
  "ok r \<Longrightarrow> json r = Inr data \<Longrightarrow> get_prop data ''error'' = Inr err \<Longrightarrow> \<not> truthy err \<Longrightarrow>
   request_try P (Resolved r) = Inr data"
  by (simp add: request_try_def bind_exn_def)

lemma request_try_api_error:
  "ok r \<Longrightarrow> json r = Inr data \<Longrightarrow> get_prop data ''error'' = Inr err \<Longrightarrow> truthy err \<Longrightarrow>
   js_String (NumberToString P) err = Inr s \<Longrightarrow>
   request_try P (Resolved r) = Inl (Error (''EDD API Error: '' @ s))"
  by (simp add: request_try_def bind_exn_def)

text \<open>
  Claim C2. When the first two attempts fail (the \<open>try\<close> block throws: a rejected
  \<open>fetch\<close>, a response that is not ok, a body that does not decode or carries an error)
  with something the \<open>catch\<close> block makes an \<open>Error\<close> of (every \<open>Error\<close> instance, which
  is all a transport rejects with, and every other value that has a text), and the third
  resolves to an ok response whose decoded body has no truthy \<open>error\<close>, then \<open>request\<close>
  with the default budget of 3 returns that decoded body, and its effects are, in this
  order: the first call, a delay of 1000 ms, the second call, a delay of 2000 ms, the
  third call. So the transport is called exactly three times, the two delays of
  \<open>2^(attempt-1)\<close> seconds fall between the attempts, and nothing is waited before the
  first call or after the last.
\<close>

theorem request_succeeds_on_third_attempt:
  assumes "request_try P (fetch P u (length (calls w))) = Inl e1" and "as_Error P e1 = Inr x1"
      and "request_try P (fetch P u (length (calls w) + 1)) = Inl e2" and "as_Error P e2 = Inr x2"
      and "fetch P u (length (calls w) + 2) = Resolved r"
      and "ok r" and "json r = Inr data"
      and "get_prop data ''error'' = Inr err" and "\<not> truthy err"
  shows "request P u 3 w =
           (Inr data, w @ [Fetch u, Wait 1000, Fetch u, Wait 2000, Fetch u])
         \<and> calls (w @ [Fetch u, Wait 1000, Fetch u, Wait 2000, Fetch u]) = calls w @ [u, u, u]
         \<and> sleeps (w @ [Fetch u, Wait 1000, Fetch u, Wait 2000, Fetch u]) = sleeps w @ [1000, 2000]
         \<and> backoff_ms 1 = 1000 \<and> backoff_ms 2 = 2000"
proof -
  have f: "\<forall>i<2. \<exists>e x. request_try P (fetch P u (length (calls w) + i)) = Inl e \<and> as_Error P e = Inr x"
  proof (intro allI impI)
    fix i :: nat assume "i < 2"
    then have "i = 0 \<or> i = 1" by auto
    then show "\<exists>e x. request_try P (fetch P u (length (calls w) + i)) = Inl e \<and> as_Error P e = Inr x"
      using assms(1-4) by auto
  qed
  have s: "request_try P (fetch P u (length (calls w) + 2)) = Inr data"
    using assms(5-9) by (simp add: request_try_ok)
  have "request_loop P u 3 1 None w =
          (Inr data,
           w @ concat (map (\<lambda>a. [Fetch u, Wait (backoff_ms a)]) [1..<1 + 2]) @ [Fetch u])"
    by (rule request_loop_success_after[OF f s]) simp
  moreover have "[1..<1 + 2] = [1, 2::nat]" by (simp add: upt_conv_Cons)
  ultimately show ?thesis
    by (simp add: request_def backoff_ms_def calls_append sleeps_append)
qed

theorem request_succeeds_on_third_attempt_witness:
  "request fails_twice (buildPublicUrl (NumberToString fails_twice) test_client ''products/'' []) 3 no_effects =
     (Inr (JObj [(''products'', JArr [])]),
      [Fetch (buildPublicUrl (NumberToString fails_twice) test_client ''products/'' []), Wait 1000,
       Fetch (buildPublicUrl (NumberToString fails_twice) test_client ''products/'' []), Wait 2000,
       Fetch (buildPublicUrl (NumberToString fails_twice) test_client ''products/'' [])])"
proof -
  have a: "request_try fails_twice (Rejected (Error ''Network error'')) = Inl (Error ''Network error'')"
    by (rule request_try_Rejected)
  have b: "as_Error fails_twice (Error ''Network error'') = Inr (Error ''Network error'')"
    by simp
  show ?thesis
    using request_succeeds_on_third_attempt[of fails_twice
            "buildPublicUrl (NumberToString fails_twice) test_client ''products/'' []" no_effects
            "Error ''Network error''" "Error ''Network error''"
            "Error ''Network error''" "Error ''Network error''"
            "ok_response (JObj [(''products'', JArr [])])" "JObj [(''products'', JArr [])]" JUndefined]
          a b
    by (simp add: fails_twice_def mock_platform_def ok_response_def no_effects_def)
qed

text \<open>
  Claim C3. When every attempt resolves to a response that is not ok, \<open>request\<close> with a
  budget of \<open>retries > 0\<close> calls the transport exactly \<open>retries\<close> times, with the delay
  \<open>2^(attempt-1)\<close> seconds after each attempt but the last, and then throws the last
  error observed: \<open>HTTP <status>: <statusText>\<close> of the final response.
\<close>

theorem request_http_error_after_budget:
  assumes "0 < retries"
      and "\<forall>i<retries. fetch P u (length (calls w) + i) = Resolved (rs i) \<and> \<not> ok (rs i)"
  shows "let w' = w @ concat (map (\<lambda>a. [Fetch u, Wait (backoff_ms a)]) [1..<retries]) @ [Fetch u]
         in request P u retries w =
              (Inl (Error (''HTTP '' @ show_nat (status (rs (retries - 1))) @ '': ''
                           @ statusText (rs (retries - 1)))), w')
            \<and> calls w' = calls w @ replicate retries u
            \<and> sleeps w' = sleeps w @ map backoff_ms [1..<retries]"
proof -
  define es where "es i = Error (''HTTP '' @ show_nat (status (rs i)) @ '': '' @ statusText (rs i))" for i
  obtain k where k: "retries = 1 + k" using assms(1) by (cases retries) auto
  have "\<forall>i\<le>k. request_try P (fetch P u (length (calls w) + i)) = Inl (es i)
                \<and> as_Error P (es i) = Inr (es i)"
    using assms(2) k by (simp add: request_try_not_ok es_def)
  then have "request_loop P u retries 1 None w =
               (Inl (es k),
                w @ concat (map (\<lambda>a. [Fetch u, Wait (backoff_ms a)]) [1..<retries]) @ [Fetch u])"
    using k by (rule request_loop_all_fail)
  moreover have "replicate k u @ [u] = u # replicate k u"
    by (simp add: replicate_append_same)
  ultimately show ?thesis using k
    by (simp add: request_def es_def Let_def calls_append sleeps_append calls_attempts sleeps_attempts)
qed

lemma show_nat_401: "show_nat 401 = ''401''"
  by (simp add: show_nat_digit show_nat_step digit_char_def)

theorem request_http_error_after_budget_witness:
  "request always_401 (buildUrl (NumberToString always_401) test_client ''customers/'' []) 3 no_effects =
     (Inl (Error ''HTTP 401: Unauthorized''),
      [Fetch (buildUrl (NumberToString always_401) test_client ''customers/'' []), Wait 1000,
       Fetch (buildUrl (NumberToString always_401) test_client ''customers/'' []), Wait 2000,
       Fetch (buildUrl (NumberToString always_401) test_client ''customers/'' [])])"
proof -
  have "[1..<3] = [1, 2::nat]" by (simp add: upt_conv_Cons)
  then show ?thesis
    using request_http_error_after_budget[of 3 always_401
            "buildUrl (NumberToString always_401) test_client ''customers/'' []" no_effects
            "\<lambda>i. \<lparr> ok = False, status = 401, statusText = ''Unauthorized'', json = Inr (JObj []) \<rparr>"]
    by (simp add: always_401_def mock_platform_def no_effects_def show_nat_401 backoff_ms_def Let_def)
qed

text \<open>
  Claim C4. When every attempt resolves to an ok response (HTTP 200 is one) whose body is
  a JSON object with a non-empty string in its \<open>error\<close> field, each response counts as a
  failure: \<open>request\<close> makes the same calls and waits the same delays, in the same order,
  as for HTTP failures, and then throws \<open>EDD API Error: <message>\<close> with the server's
  message of the final response.
\<close>

theorem request_api_error_after_budget:
  assumes "0 < retries"
      and "\<forall>i<retries. fetch P u (length (calls w) + i) = Resolved (rs i) \<and> ok (rs i)
              \<and> json (rs i) = Inr (JObj (body i))
              \<and> map_of (body i) ''error'' = Some (JStr (msg i)) \<and> msg i \<noteq> []"
  shows "let w' = w @ concat (map (\<lambda>a. [Fetch u, Wait (backoff_ms a)]) [1..<retries]) @ [Fetch u]
         in request P u retries w = (Inl (Error (''EDD API Error: '' @ msg (retries - 1))), w')
            \<and> calls w' = calls w @ replicate retries u
            \<and> sleeps w' = sleeps w @ map backoff_ms [1..<retries]"
proof -
  define es where "es i = Error (''EDD API Error: '' @ msg i)" for i
  obtain k where k: "retries = 1 + k" using assms(1) by (cases retries) auto
  have "\<forall>i\<le>k. request_try P (fetch P u (length (calls w) + i)) = Inl (es i)
                \<and> as_Error P (es i) = Inr (es i)"
  proof (intro allI impI)
    fix i assume "i \<le> k"
    then have "i < retries" using k by simp
    with assms(2) have r: "fetch P u (length (calls w) + i) = Resolved (rs i)" "ok (rs i)"
        "json (rs i) = Inr (JObj (body i))" "map_of (body i) ''error'' = Some (JStr (msg i))"
        "msg i \<noteq> []" by auto
    have "request_try P (Resolved (rs i)) = Inl (Error (''EDD API Error: '' @ msg i))"
      by (rule request_try_api_error[OF r(2) r(3), where err = "JStr (msg i)" and s = "msg i"])
         (simp_all add: r(4) r(5))
    then show "request_try P (fetch P u (length (calls w) + i)) = Inl (es i)
                 \<and> as_Error P (es i) = Inr (es i)"
      by (simp add: r(1) es_def)
  qed
  then have "request_loop P u retries 1 None w =
               (Inl (es k),
                w @ concat (map (\<lambda>a. [Fetch u, Wait (backoff_ms a)]) [1..<retries]) @ [Fetch u])"
    using k by (rule request_loop_all_fail)
  moreover have "replicate k u @ [u] = u # replicate k u"
    by (simp add: replicate_append_same)
  ultimately show ?thesis using k
    by (simp add: request_def es_def Let_def calls_append sleeps_append calls_attempts sleeps_attempts)
qed

theorem request_api_error_after_budget_witness:
  "request invalid_api_key (buildUrl (NumberToString invalid_api_key) test_client ''customers/'' []) 3 no_effects =
     (Inl (Error ''EDD API Error: Invalid API key''),
      [Fetch (buildUrl (NumberToString invalid_api_key) test_client ''customers/'' []), Wait 1000,
       Fetch (buildUrl (NumberToString invalid_api_key) test_client ''customers/'' []), Wait 2000,
       Fetch (buildUrl (NumberToString invalid_api_key) test_client ''customers/'' [])])"
proof -
  have "[1..<3] = [1, 2::nat]" by (simp add: upt_conv_Cons)
  then show ?thesis
    using request_api_error_after_budget[of 3 invalid_api_key
            "buildUrl (NumberToString invalid_api_key) test_client ''customers/'' []" no_effects
            "\<lambda>i. ok_response (JObj [(''error'', JStr ''Invalid API key'')])"
            "\<lambda>i. [(''error'', JStr ''Invalid API key'')]" "\<lambda>i. ''Invalid API key''"]
    by (simp add: invalid_api_key_def mock_platform_def ok_response_def no_effects_def backoff_ms_def Let_def)
qed

section \<open>Endpoint methods and tool handlers\<close>

lemma await_Inr: "await (Inr v, w) f = (f v, w)"
  by (simp add: await_def)

lemma request_first_ok:
  "0 < retries \<Longrightarrow> request_try P (fetch P u (length (calls w))) = Inr data \<Longrightarrow>
   request P u retries w = (Inr data, w @ [Fetch u])"
  by (simp add: request_def request_loop_ok_step)

lemma mock_request_ok:
  assumes "outcomes 0 = Resolved (ok_response (JObj kvs))"
      and "\<not> truthy (case map_of kvs ''error'' of Some v \<Rightarrow> v | None \<Rightarrow> JUndefined)"
  shows "request (mock_platform outcomes) u 3 no_effects =
           (Inr (JObj kvs), [Fetch u])"
proof -
  have "request_try (mock_platform outcomes) (fetch (mock_platform outcomes) u (length (calls no_effects)))
          = Inr (JObj kvs)"
    using assms by (simp add: mock_platform_def no_effects_def ok_response_def request_try_ok)
  then show ?thesis
    by (simp add: request_first_ok) (simp add: no_effects_def)
qed

lemma empty_lists_request:
  "request empty_lists u 3 no_effects =
     (Inr (JObj [(''products'', JArr []), (''customers'', JArr []), (''sales'', JArr []),
                 (''discounts'', JArr [])]), [Fetch u])"
  unfolding empty_lists_def by (rule mock_request_ok) simp_all

lemma empty_object_request:
  "request empty_object u 3 no_effects = (Inr (JObj []), [Fetch u])"
  unfolding empty_object_def by (rule mock_request_ok) simp_all

text \<open>
  Claim C1 says that every authenticated call, \<open>getSaleByKey\<close> included, fetches a URL
  that carries the configured public key as \<open>key\<close> and the token as \<open>token\<close>.
  \<open>buildUrl_keeps_auth\<close> gives this for every parameter map without the names \<open>key\<close>
  and \<open>token\<close>, which covers every other authenticated method. \<open>getSaleByKey\<close> passes
  the purchase key under the name \<open>key\<close>, and the loop over the parameters runs after the
  authentication is set: the URL it fetches carries the purchase key as \<open>key\<close> and the
  configured public key nowhere.
\<close>

theorem getSaleByKey_replaces_api_key:
  "getSaleByKey sale_lookup test_client (PStr ''abc123'') no_effects =
     (Inr JNull,
      [Fetch \<lparr> base = ''https://example.com/edd-api/'', endpoint = ''sales/'',
                searchParams = [(''key'', ''abc123''), (''token'', ''test-token'')] \<rparr>])"
proof -
  have "request sale_lookup u 3 no_effects = (Inr (JObj [(''sales'', JArr [])]), [Fetch u])" for u
    unfolding sale_lookup_def by (rule mock_request_ok) simp_all
  then show ?thesis
    by (simp add: getSaleByKey_def await_def bind_exn_def or_else_def opt_elem0_def
          buildUrl_def new_URL_def test_client_def)
qed

text \<open>
  Claim C5. Whenever \<open>request\<close> succeeds with a response whose resource array is empty,
  \<open>getProduct\<close>, \<open>getCustomerById\<close>, \<open>getSaleById\<close> and \<open>getDiscount\<close> return \<open>null\<close>
  and throw nothing; the three methods that read the field through \<open>?.\<close> do the same
  when the field is absent.
\<close>

theorem single_lookup_null_when_empty:
  "(request P (buildPublicUrl (NumberToString P) c ''products/'' [(''product'', i)]) 3 w = (Inr r, w')
      \<and> get_prop r ''products'' = Inr (JArr [])
      \<longrightarrow> getProduct P c i w = (Inr JNull, w'))
   \<and> (request P (buildUrl (NumberToString P) c ''customers/'' [(''customer'', i)]) 3 w = (Inr r, w')
      \<and> (get_prop r ''customers'' = Inr (JArr []) \<or> get_prop r ''customers'' = Inr JUndefined)
      \<longrightarrow> getCustomerById P c i w = (Inr JNull, w'))
   \<and> (request P (buildUrl (NumberToString P) c ''sales/'' [(''id'', i)]) 3 w = (Inr r, w')
      \<and> (get_prop r ''sales'' = Inr (JArr []) \<or> get_prop r ''sales'' = Inr JUndefined)
      \<longrightarrow> getSaleById P c i w = (Inr JNull, w'))
   \<and> (request P (buildUrl (NumberToString P) c ''discounts/'' [(''discount'', i)]) 3 w = (Inr r, w')
      \<and> (get_prop r ''discounts'' = Inr (JArr []) \<or> get_prop r ''discounts'' = Inr JUndefined)
      \<longrightarrow> getDiscount P c i w = (Inr JNull, w'))"
  by (auto simp: getProduct_def listProducts_def getCustomerById_def getSaleById_def getDiscount_def
        await_def bind_exn_def or_else_def opt_elem0_def)

theorem single_lookup_null_when_empty_witness:
  "fst (getProduct empty_lists test_client (PNum 9999) no_effects) = Inr JNull
   \<and> fst (getCustomerById empty_lists test_client (PNum 9999) no_effects) = Inr JNull
   \<and> fst (getSaleById empty_lists test_client (PNum 9999) no_effects) = Inr JNull
   \<and> fst (getDiscount empty_lists test_client (PNum 9999) no_effects) = Inr JNull
   \<and> fst (getSaleById empty_object test_client (PNum 9999) no_effects) = Inr JNull"
proof -
  let ?body = "JObj [(''products'', JArr []), (''customers'', JArr []), (''sales'', JArr []),
            (''discounts'', JArr [])]"
  have r: "request empty_lists u 3 no_effects = (Inr ?body, [Fetch u])" for u
    unfolding empty_lists_def by (rule mock_request_ok) simp_all
  have r0: "request empty_object u 3 no_effects = (Inr (JObj []), [Fetch u])" for u
    unfolding empty_object_def by (rule mock_request_ok) simp_all
  show ?thesis
    using single_lookup_null_when_empty[of empty_lists test_client "PNum 9999" no_effects ?body]
          single_lookup_null_when_empty[of empty_object test_client "PNum 9999" no_effects "JObj []"]
    by (simp add: r r0)
qed

text \<open>
  Claim C6. Whenever \<open>request\<close> succeeds with a flat object, \<open>getStatsByDateRange\<close>
  returns the object with the properties \<open>request_speed\<close> and \<open>totals\<close> removed and every
  other property unchanged, in the same order. The instance below is the response of the
  unit test: three dates, \<open>request_speed: 0.01\<close> and \<open>totals: 450\<close>.
\<close>

theorem date_range_drops_speed_and_totals:
  assumes "request P (buildUrl (NumberToString P) c ''stats/''
              [(''type'', PStr (type_name t)), (''date'', PStr ''range''),
               (''startdate'', startDate), (''enddate'', endDate)]) 3 w = (Inr (JObj kvs), w')"
  shows "getStatsByDateRange P c t startDate endDate w =
           (Inr (JObj (filter (\<lambda>(k, v). k \<noteq> ''request_speed'' \<and> k \<noteq> ''totals'') kvs)), w')"
  using assms by (simp add: getStatsByDateRange_def await_def bind_exn_def)

theorem date_range_drops_speed_and_totals_witness:
  "fst (getStatsByDateRange date_range_stats test_client Earnings (PStr ''20250101'') (PStr ''20250103'') no_effects)
     = Inr (JObj [(''2025-01-01'', JNum 100), (''2025-01-02'', JNum 150), (''2025-01-03'', JNum 200)])"
proof -
  have r: "request date_range_stats u 3 no_effects =
             (Inr (JObj [(''2025-01-01'', JNum 100), (''2025-01-02'', JNum 150),
                (''2025-01-03'', JNum 200), (''request_speed'', JNum (1 / 100)), (''totals'', JNum 450)]),
              [Fetch u])" for u
    unfolding date_range_stats_def date_range_body_def by (rule mock_request_ok) simp_all
  show ?thesis
    using date_range_drops_speed_and_totals[OF r, of test_client Earnings "PStr ''20250101''" "PStr ''20250103''"]
    by simp
qed

text \<open>
  Claim C7. \<open>getStats(type)\<close> returns the inner \<open>stats\<close> object when the response has a
  truthy \<open>stats\<close> property, and otherwise the object that maps \<open>type\<close> to the response's
  value for it. So the wrapper \<open>{stats: {<type>: x}}\<close> and the flat
  \<open>{<type>: x, request_speed: sp}\<close> give the same result, \<open>{<type>: x}\<close>.
\<close>

theorem getStats_normalizes:
  "(request P (buildUrl (NumberToString P) c ''stats/'' [(''type'', PStr (type_name t))]) 3 w = (Inr (JObj kvs), w')
      \<and> map_of kvs ''stats'' = Some s \<and> truthy s
      \<longrightarrow> getStats P c t w = (Inr s, w'))
   \<and> (request P (buildUrl (NumberToString P) c ''stats/'' [(''type'', PStr (type_name t))]) 3 w = (Inr (JObj kvs), w')
      \<and> get_prop (JObj kvs) ''stats'' = Inr s \<and> \<not> truthy s \<and> get_prop (JObj kvs) (type_name t) = Inr v
      \<longrightarrow> getStats P c t w = (Inr (JObj [(type_name t, v)]), w'))
   \<and> (request P1 (buildUrl (NumberToString P1) c ''stats/'' [(''type'', PStr (type_name t))]) 3 w1
         = (Inr (JObj [(''stats'', JObj [(type_name t, x)])]), w1')
      \<and> request P2 (buildUrl (NumberToString P2) c ''stats/'' [(''type'', PStr (type_name t))]) 3 w2
         = (Inr (JObj [(type_name t, x), (''request_speed'', sp)]), w2')
      \<longrightarrow> fst (getStats P1 c t w1) = Inr (JObj [(type_name t, x)])
        \<and> fst (getStats P2 c t w2) = fst (getStats P1 c t w1))"
  by (cases t) (auto simp: getStats_def await_def bind_exn_def split: option.splits)

theorem getStats_normalizes_witness:
  "fst (getStats wrapped_stats test_client Earnings no_effects) = Inr (JObj [(''earnings'', earnings_data)])
   \<and> fst (getStats flat_stats test_client Earnings no_effects) = Inr (JObj [(''earnings'', earnings_data)])
   \<and> fst (getStats flat_stats test_client Earnings no_effects)
       = fst (getStats wrapped_stats test_client Earnings no_effects)"
proof -
  have r1: "request wrapped_stats u 3 no_effects =
              (Inr (JObj [(''stats'', JObj [(''earnings'', earnings_data)])]), [Fetch u])" for u
    unfolding wrapped_stats_def by (rule mock_request_ok) simp_all
  have r2: "request flat_stats u 3 no_effects =
              (Inr (JObj [(''earnings'', earnings_data), (''request_speed'', JNum (1 / 100))]),
               [Fetch u])" for u
    unfolding flat_stats_def by (rule mock_request_ok) simp_all
  have "fst (getStats wrapped_stats test_client Earnings no_effects) = Inr (JObj [(type_name Earnings, earnings_data)])
        \<and> fst (getStats flat_stats test_client Earnings no_effects)
            = fst (getStats wrapped_stats test_client Earnings no_effects)"
    using getStats_normalizes[where c = test_client and t = Earnings
            and ?P1.0 = wrapped_stats and ?w1.0 = no_effects and x = earnings_data
            and ?P2.0 = flat_stats and ?w2.0 = no_effects and sp = "JNum (1 / 100)"
            and ?w1'.0 = "[Fetch (buildUrl (NumberToString wrapped_stats) test_client ''stats/'' [(''type'', PStr (type_name Earnings))])]"
            and ?w2'.0 = "[Fetch (buildUrl (NumberToString flat_stats) test_client ''stats/'' [(''type'', PStr (type_name Earnings))])]"]
          r1[of "buildUrl (NumberToString wrapped_stats) test_client ''stats/'' [(''type'', PStr (type_name Earnings))]"]
          r2[of "buildUrl (NumberToString flat_stats) test_client ''stats/'' [(''type'', PStr (type_name Earnings))]"]
    by simp
  then show ?thesis by simp
qed

text \<open>
  Claim C9. With neither identifying parameter supplied, the get-sale and get-customer
  handlers return their \<open>Error: Either ... is required\<close> text, throw nothing and leave the
  world as it was (no call to the client). When the lookup they choose returns \<open>null\<close>,
  they return \<open>Sale not found\<close> / \<open>Customer not found\<close> as text and throw nothing.
\<close>

theorem lookup_tools_report_missing_and_not_found:
  "edd_get_sale P c PUndefined PUndefined w =
      (Inr [Text ''Error: Either saleId or purchaseKey is required''], w)
   \<and> edd_get_customer P c PUndefined PUndefined w =
      (Inr [Text ''Error: Either customerId or email is required''], w)
   \<and> (param_truthy saleId \<and> getSaleById P c saleId w = (Inr JNull, w')
      \<longrightarrow> edd_get_sale P c saleId purchaseKey w = (Inr [Text ''Sale not found''], w'))
   \<and> (\<not> param_truthy saleId \<and> param_truthy purchaseKey \<and> getSaleByKey P c purchaseKey w = (Inr JNull, w')
      \<longrightarrow> edd_get_sale P c saleId purchaseKey w = (Inr [Text ''Sale not found''], w'))
   \<and> (param_truthy customerId \<and> getCustomerById P c customerId w = (Inr JNull, w')
      \<longrightarrow> edd_get_customer P c customerId email w = (Inr [Text ''Customer not found''], w'))
   \<and> (\<not> param_truthy customerId \<and> param_truthy email \<and> getCustomerByEmail P c email w = (Inr JNull, w')
      \<longrightarrow> edd_get_customer P c customerId email w = (Inr [Text ''Customer not found''], w'))"
  by (simp add: edd_get_sale_def edd_get_customer_def await_def)

theorem lookup_tools_report_missing_and_not_found_witness:
  "edd_get_sale empty_lists test_client PUndefined PUndefined no_effects =
      (Inr [Text ''Error: Either saleId or purchaseKey is required''], no_effects)
   \<and> edd_get_customer empty_lists test_client PUndefined PUndefined no_effects =
      (Inr [Text ''Error: Either customerId or email is required''], no_effects)
   \<and> fst (edd_get_sale empty_lists test_client (PNum 123) PUndefined no_effects) = Inr [Text ''Sale not found'']
   \<and> fst (edd_get_sale empty_lists test_client PUndefined (PStr ''abc123'') no_effects) = Inr [Text ''Sale not found'']
   \<and> fst (edd_get_customer empty_lists test_client (PNum 42) PUndefined no_effects) = Inr [Text ''Customer not found'']
   \<and> fst (edd_get_customer empty_lists test_client PUndefined (PStr ''nobody@example.com'') no_effects)
       = Inr [Text ''Customer not found'']"
proof -
  have a: "getSaleById empty_lists test_client (PNum 123) no_effects =
             (Inr JNull, [Fetch (buildUrl (NumberToString empty_lists) test_client ''sales/'' [(''id'', PNum 123)])])"
    by (simp add: getSaleById_def empty_lists_request await_def bind_exn_def or_else_def opt_elem0_def)
  have b: "getSaleByKey empty_lists test_client (PStr ''abc123'') no_effects =
             (Inr JNull, [Fetch (buildUrl (NumberToString empty_lists) test_client ''sales/'' [(''key'', PStr ''abc123'')])])"
    by (simp add: getSaleByKey_def empty_lists_request await_def bind_exn_def or_else_def opt_elem0_def)
  have c: "getCustomerById empty_lists test_client (PNum 42) no_effects =
             (Inr JNull, [Fetch (buildUrl (NumberToString empty_lists) test_client ''customers/'' [(''customer'', PNum 42)])])"
    by (simp add: getCustomerById_def empty_lists_request await_def bind_exn_def or_else_def opt_elem0_def)
  have d: "getCustomerByEmail empty_lists test_client (PStr ''nobody@example.com'') no_effects =
             (Inr JNull, [Fetch (buildUrl (NumberToString empty_lists) test_client ''customers/'' [(''email'', PStr ''nobody@example.com'')])])"
    by (simp add: getCustomerByEmail_def empty_lists_request await_def bind_exn_def or_else_def opt_elem0_def)
  show ?thesis
    using lookup_tools_report_missing_and_not_found[where P = empty_lists and c = test_client
            and w = no_effects and saleId = "PNum 123" and purchaseKey = PUndefined
            and customerId = "PNum 42" and email = PUndefined]
          lookup_tools_report_missing_and_not_found[where P = empty_lists and c = test_client
            and w = no_effects and saleId = PUndefined and purchaseKey = "PStr ''abc123''"
            and customerId = PUndefined and email = "PStr ''nobody@example.com''"]
    by (simp add: a b c d)
qed

text \<open>
  Claim C10. When \<open>request\<close> succeeds with an object that lacks the envelope field,
  \<open>listSales\<close>, \<open>listCustomers\<close>, \<open>listDiscounts\<close> and \<open>getDownloadLogs\<close> return the
  empty array. \<open>listProducts\<close> returns the field unguarded: \<open>undefined\<close>, not an empty
  array; and \<open>getProduct\<close> then throws a \<open>TypeError\<close> at \<open>products[0]\<close>, while on a
  present array it returns the first element or \<open>null\<close>.
\<close>

theorem list_methods_on_missing_field:
  "(request P (buildUrl (NumberToString P) c ''sales/'' options) 3 w = (Inr (JObj kvs), w')
      \<and> map_of kvs ''sales'' = None
      \<longrightarrow> listSales P c options w = (Inr (JArr []), w'))
   \<and> (request P (buildUrl (NumberToString P) c ''customers/'' options) 3 w = (Inr (JObj kvs), w')
      \<and> map_of kvs ''customers'' = None
      \<longrightarrow> listCustomers P c options w = (Inr (JArr []), w'))
   \<and> (request P (buildUrl (NumberToString P) c ''discounts/'' options) 3 w = (Inr (JObj kvs), w')
      \<and> map_of kvs ''discounts'' = None
      \<longrightarrow> listDiscounts P c options w = (Inr (JArr []), w'))
   \<and> (request P (buildUrl (NumberToString P) c ''file-download-logs/'' options) 3 w = (Inr (JObj kvs), w')
      \<and> map_of kvs ''download_logs'' = None
      \<longrightarrow> getDownloadLogs P c options w = (Inr (JArr []), w'))
   \<and> (request P (buildPublicUrl (NumberToString P) c ''products/'' options) 3 w = (Inr (JObj kvs), w')
      \<and> map_of kvs ''products'' = None
      \<longrightarrow> listProducts P c options w = (Inr JUndefined, w')
        \<and> listProducts P c options w \<noteq> (Inr (JArr []), w'))
   \<and> (request P (buildPublicUrl (NumberToString P) c ''products/'' [(''product'', i)]) 3 w = (Inr (JObj kvs), w')
      \<and> map_of kvs ''products'' = None
      \<longrightarrow> getProduct P c i w = (Inl TypeError, w'))
   \<and> (request P (buildPublicUrl (NumberToString P) c ''products/'' [(''product'', i)]) 3 w = (Inr (JObj kvs), w')
      \<and> map_of kvs ''products'' = Some (JArr xs)
      \<longrightarrow> getProduct P c i w = (Inr (or_else (case xs of [] \<Rightarrow> JUndefined | x # _ \<Rightarrow> x) JNull), w'))"
  by (simp add: listSales_def listCustomers_def listDiscounts_def getDownloadLogs_def
        listProducts_def getProduct_def await_def bind_exn_def or_else_def)

theorem list_methods_on_missing_field_witness:
  "fst (listSales empty_object test_client [] no_effects) = Inr (JArr [])
   \<and> fst (listCustomers empty_object test_client [] no_effects) = Inr (JArr [])
   \<and> fst (listDiscounts empty_object test_client [] no_effects) = Inr (JArr [])
   \<and> fst (getDownloadLogs empty_object test_client [] no_effects) = Inr (JArr [])
   \<and> fst (listProducts empty_object test_client [] no_effects) = Inr JUndefined
   \<and> fst (getProduct empty_object test_client (PNum 42) no_effects) = Inl TypeError
   \<and> fst (getProduct empty_lists test_client (PNum 42) no_effects) = Inr JNull"
  using list_methods_on_missing_field[where P = empty_object and c = test_client and w = no_effects
          and options = "[]" and kvs = "[]" and i = "PNum 42"]
        list_methods_on_missing_field[where P = empty_lists and c = test_client and w = no_effects
          and kvs = "[(''products'', JArr []), (''customers'', JArr []), (''sales'', JArr []),
                 (''discounts'', JArr [])]" and i = "PNum 42" and xs = "[]"]
  by (simp add: empty_object_request empty_lists_request or_else_def)

end
